theory Spec2Isabelle
  imports Main "HOL-Library.Sublist"
begin

section \<open>Python values and strings\<close>

text \<open>
  A Python \<open>str\<close> is modelled as a \<open>string\<close> (a list of characters; code points below 256).
  The values that \<open>json.loads\<close> produces are \<open>None\<close>, booleans, integers, floats, strings,
  lists and dicts. A float is carried as a value of the type parameter \<open>'f\<close>; the only thing
  the program does with a float is to render it, through the parameter \<open>fs\<close> (Python's
  \<open>str\<close> on floats). A dict keeps its insertion order, so it is an association list.
\<close>

datatype 'f json =
    JNull
  | JBool bool
  | JInt int
  | JFloat 'f
  | JStr string
  | JArr "'f json list"
  | JObj "(string \<times> 'f json) list"

fun is_dict :: "'f json \<Rightarrow> bool" where
  "is_dict (JObj _) = True"
| "is_dict _ = False"

fun is_list :: "'f json \<Rightarrow> bool" where
  "is_list (JArr _) = True"
| "is_list _ = False"

text \<open>\<open>isinstance(value, (dict, list))\<close>\<close>

definition is_dict_or_list :: "'f json \<Rightarrow> bool" where
  "is_dict_or_list v = (is_dict v \<or> is_list v)"

text \<open>\<open>sep.join(parts)\<close>\<close>

fun join :: "string \<Rightarrow> string list \<Rightarrow> string" where
  "join sep [] = []"
| "join sep [x] = x"
| "join sep (x # y # ys) = x @ sep @ join sep (y # ys)"

text \<open>Decimal rendering of a natural number, and \<open>str\<close> on an \<open>int\<close>.\<close>

definition digit_char :: "nat \<Rightarrow> char" where
  "digit_char d = char_of (48 + d)"

fun str_nat :: "nat \<Rightarrow> string" where
  "str_nat n = (if n < 10 then [digit_char n] else str_nat (n div 10) @ [digit_char (n mod 10)])"

definition str_int :: "int \<Rightarrow> string" where
  "str_int i = (if i < 0 then ''-'' @ str_nat (nat (- i)) else str_nat (nat i))"

text \<open>
  \<open>repr\<close> on a \<open>str\<close>: double quotes when the text has a single quote and no double quote,
  single quotes otherwise; the quote and the backslash are escaped, tab, newline and
  carriage return are written \<open>\t\<close>, \<open>\n\<close>, \<open>\r\<close>, and every other non-printable character
  is written \<open>\xhh\<close>.
\<close>

definition hex_digit :: "nat \<Rightarrow> char" where
  "hex_digit d = (if d < 10 then char_of (48 + d) else char_of (87 + d))"

definition printable :: "char \<Rightarrow> bool" where
  "printable c = (let n = (of_char c :: nat) in
     32 \<le> n \<and> n < 127 \<or> 161 \<le> n \<and> n \<noteq> 173)"

definition repr_char :: "char \<Rightarrow> char \<Rightarrow> string" where
  "repr_char quote c =
     (if c = quote \<or> c = CHR 0x5C then [CHR 0x5C, c]
      else if c = CHR 0x09 then [CHR 0x5C, CHR ''t'']
      else if c = CHR 0x0A then [CHR 0x5C, CHR ''n'']
      else if c = CHR 0x0D then [CHR 0x5C, CHR ''r'']
      else if printable c then [c]
      else [CHR 0x5C, CHR ''x'', hex_digit ((of_char c :: nat) div 16),
            hex_digit ((of_char c :: nat) mod 16)])"

definition repr_str :: "string \<Rightarrow> string" where
  "repr_str s =
     (let quote = (if CHR 0x27 \<in> set s \<and> CHR 0x22 \<notin> set s then CHR 0x22 else CHR 0x27)
      in [quote] @ concat (map (repr_char quote) s) @ [quote])"

fun py_repr :: "('f \<Rightarrow> string) \<Rightarrow> 'f json \<Rightarrow> string" where
  "py_repr fs JNull = ''None''"
| "py_repr fs (JBool b) = (if b then ''True'' else ''False'')"
| "py_repr fs (JInt i) = str_int i"
| "py_repr fs (JFloat x) = fs x"
| "py_repr fs (JStr s) = repr_str s"
| "py_repr fs (JArr xs) = ''['' @ join '', '' (map (py_repr fs) xs) @ '']''"
| "py_repr fs (JObj kvs) =
     ''{'' @ join '', '' (map (\<lambda>(k, v). repr_str k @ '': '' @ py_repr fs v) kvs) @ ''}''"

text \<open>\<open>str(v)\<close>, which is also what an f-string field \<open>{v}\<close> renders.\<close>

fun py_str :: "('f \<Rightarrow> string) \<Rightarrow> 'f json \<Rightarrow> string" where
  "py_str fs (JStr s) = s"
| "py_str fs v = py_repr fs v"

section \<open>Format normaliser: JSON flattening (\<open>backend/ingest.py\<close>)\<close>

text \<open>
  \<open>DocumentIngestion._flatten_json(data, prefix)\<close> (the argument \<open>prefix\<close> is written \<open>prefix'\<close>). The two loops over the items of a dict
  and over the enumerated items of a list are \<open>dict_lines\<close> and \<open>list_lines\<close>; both return
  the list \<open>lines\<close>, which the function joins with newlines.
\<close>

fun flatten_json :: "('f \<Rightarrow> string) \<Rightarrow> 'f json \<Rightarrow> string \<Rightarrow> string"
  and dict_lines :: "('f \<Rightarrow> string) \<Rightarrow> (string \<times> 'f json) list \<Rightarrow> string \<Rightarrow> string list"
  and list_lines :: "('f \<Rightarrow> string) \<Rightarrow> 'f json list \<Rightarrow> nat \<Rightarrow> string \<Rightarrow> string list"
where
  "flatten_json fs (JObj kvs) prefix' = join ''\<newline>'' (dict_lines fs kvs prefix')"
| "flatten_json fs (JArr xs) prefix' = join ''\<newline>'' (list_lines fs xs 0 prefix')"
| "flatten_json fs JNull prefix' = join ''\<newline>'' [py_str fs JNull]"
| "flatten_json fs (JBool b) prefix' = join ''\<newline>'' [py_str fs (JBool b)]"
| "flatten_json fs (JInt i) prefix' = join ''\<newline>'' [py_str fs (JInt i)]"
| "flatten_json fs (JFloat x) prefix' = join ''\<newline>'' [py_str fs (JFloat x)]"
| "flatten_json fs (JStr s) prefix' = join ''\<newline>'' [py_str fs (JStr s)]"
| "dict_lines fs [] prefix' = []"
| "dict_lines fs ((key, val) # rest) prefix' =
     (let new_prefix = (if prefix' \<noteq> [] then prefix' @ ''.'' @ key else key) in
        (if is_dict_or_list val
         then [new_prefix @ '':'', flatten_json fs val new_prefix]
         else [new_prefix @ '': '' @ py_str fs val])
        @ dict_lines fs rest prefix')"
| "list_lines fs [] idx prefix' = []"
| "list_lines fs (item # rest) idx prefix' =
     (let new_prefix = prefix' @ ''['' @ str_nat idx @ '']'' in
        (if is_dict_or_list item
         then [flatten_json fs item new_prefix]
         else [new_prefix @ '': '' @ py_str fs item])
        @ list_lines fs rest (Suc idx) prefix')"

text \<open>
  The lines of a text: the pieces between its newline characters, as \<open>text.split('\n')\<close>
  gives them, and no line at all for the empty text.
\<close>

fun split_on :: "char \<Rightarrow> string \<Rightarrow> string list" where
  "split_on c [] = [[]]"
| "split_on c (x # xs) =
     (if x = c then [] # split_on c xs
      else (case split_on c xs of [] \<Rightarrow> [[x]] | l # ls \<Rightarrow> (x # l) # ls))"

definition text_lines :: "string \<Rightarrow> string list" where
  "text_lines s = (if s = [] then [] else split_on CHR 0x0A s)"

section \<open>Python string operations\<close>

text \<open>\<open>needle in hay\<close> on two strings: \<open>needle\<close> occurs in \<open>hay\<close> as a contiguous run.\<close>

fun py_in_str :: "string \<Rightarrow> string \<Rightarrow> bool" where
  "py_in_str needle [] = (needle = [])"
| "py_in_str needle (c # cs) = (prefix needle (c # cs) \<or> py_in_str needle cs)"

text \<open>\<open>any(keyword in text for keyword in keywords)\<close>\<close>

definition any_keyword_in :: "string list \<Rightarrow> string \<Rightarrow> bool" where
  "any_keyword_in keywords text = list_ex (\<lambda>keyword. py_in_str keyword text) keywords"

text \<open>
  \<open>str.lower()\<close>: the upper-case letters below code point 256 are \<open>A\<close> to \<open>Z\<close> and
  \<open>0xC0\<close> to \<open>0xDE\<close> without the multiplication sign \<open>0xD7\<close>; each is 32 below its
  lower-case letter.
\<close>

definition py_lower_char :: "char \<Rightarrow> char" where
  "py_lower_char c = (let n = (of_char c :: nat) in
     if 65 \<le> n \<and> n \<le> 90 \<or> 192 \<le> n \<and> n \<le> 222 \<and> n \<noteq> 215 then char_of (n + 32) else c)"

definition py_lower :: "string \<Rightarrow> string" where
  "py_lower s = map py_lower_char s"

text \<open>
  \<open>str.strip()\<close> removes leading and trailing whitespace: tab, line feed, vertical tab,
  form feed, carriage return, the separators \<open>0x1C\<close> to \<open>0x1F\<close>, space, \<open>0x85\<close> and
  \<open>0xA0\<close>.
\<close>

definition py_isspace :: "char \<Rightarrow> bool" where
  "py_isspace c = (let n = (of_char c :: nat) in
     9 \<le> n \<and> n \<le> 13 \<or> 28 \<le> n \<and> n \<le> 32 \<or> n = 133 \<or> n = 160)"

definition py_strip :: "string \<Rightarrow> string" where
  "py_strip s = rev (dropWhile py_isspace (rev (dropWhile py_isspace s)))"

text \<open>Exceptions, with the text that \<open>str(e)\<close> gives.\<close>

datatype exn =
    JSONDecodeError string
  | TypeError string
  | OtherError string

fun exn_str :: "exn \<Rightarrow> string" where
  "exn_str (JSONDecodeError m) = m"
| "exn_str (TypeError m) = m"
| "exn_str (OtherError m) = m"

section \<open>Selector extractor (\<open>backend/selectors.py\<close>)\<close>

text \<open>
  The document tree that \<open>BeautifulSoup(html_content, 'html.parser')\<close> builds. An element
  carries its tag name, its attributes and its children. Of the attributes the extractor
  reads \<open>id\<close>, \<open>name\<close>, \<open>class\<close>, \<open>data-test\<close> and \<open>type\<close>; the parser gives \<open>class\<close> as a
  list of tokens, and the code also accepts a plain string there. A child is an element or
  a string. A string is ordinary text (\<open>NavigableString\<close>, \<open>CData\<close>), or the text the parser
  found directly inside a \<open>script\<close>, \<open>style\<close>, \<open>template\<close>, \<open>rt\<close> or \<open>rp\<close> element (it gets
  a string class of its own, named here by that element), or a comment, doctype,
  declaration or processing instruction.
\<close>

datatype class_value = ClassList "string list" | ClassStr string

record attrs =
  attr_id :: "string option"
  attr_name :: "string option"
  attr_class :: "class_value option"
  attr_data_test :: "string option"
  attr_type :: "string option"

datatype string_kind = Plain | Special string | Hidden

datatype node =
    Tag string attrs "node list"
  | Text string_kind string

abbreviation NavigableString :: "string \<Rightarrow> node" where
  "NavigableString s \<equiv> Text Plain s"

type_synonym element = "string \<times> attrs \<times> node list"

text \<open>\<open>soup.find_all()\<close>: every element of the document, in document order.\<close>

fun descendant_tags :: "node \<Rightarrow> element list" where
  "descendant_tags (Tag n a cs) = (n, a, cs) # concat (map descendant_tags cs)"
| "descendant_tags (Text k s) = []"

definition find_all :: "node list \<Rightarrow> element list" where
  "find_all soup = concat (map descendant_tags soup)"

text \<open>
  The strings \<open>get_text\<close> collects when it is called on an element named \<open>container\<close>: an
  ordinary element collects the ordinary text below it, and a \<open>script\<close>, \<open>style\<close>,
  \<open>template\<close>, \<open>rt\<close> or \<open>rp\<close> element collects the strings of its own class.
\<close>

definition special_containers :: "string list" where
  "special_containers = [''script'', ''style'', ''template'', ''rt'', ''rp'']"

fun interesting :: "string \<Rightarrow> string_kind \<Rightarrow> bool" where
  "interesting container Plain = (container \<notin> set special_containers)"
| "interesting container (Special c) = (c = container \<and> container \<in> set special_containers)"
| "interesting container Hidden = False"

fun all_strings :: "string \<Rightarrow> node \<Rightarrow> string list" where
  "all_strings container (Tag n a cs) = concat (map (all_strings container) cs)"
| "all_strings container (Text k s) = (if interesting container k then [s] else [])"

text \<open>
  \<open>get_text(separator, strip=True)\<close> on an element named \<open>container\<close> with the children
  \<open>nodes\<close>: every collected string is stripped, the empty ones are dropped, and the rest
  are joined with the separator.
\<close>

definition get_text_strip :: "string \<Rightarrow> string \<Rightarrow> node list \<Rightarrow> string" where
  "get_text_strip separator container nodes =
     join separator
       (filter (\<lambda>s. s \<noteq> []) (map py_strip (concat (map (all_strings container) nodes))))"

record element_info =
  tag :: string
  selectors :: "string list"
  id_attr :: "string option"
  name_attr :: "string option"

text \<open>
  \<open>selectors_data\<close>: the flat selector list, the four lists of \<open>by_type\<close> and the eight
  buckets of \<open>semantic\<close>.
\<close>

record selectors_data =
  all_selectors :: "string list"
  ids :: "string list"
  names :: "string list"
  classes :: "string list"
  data_test :: "string list"
  buttons :: "element_info list"
  inputs :: "element_info list"
  forms :: "element_info list"
  cart_elements :: "element_info list"
  payment_elements :: "element_info list"
  shipping_elements :: "element_info list"
  discount_elements :: "element_info list"
  validation_elements :: "element_info list"

definition empty_selectors_data :: selectors_data where
  "empty_selectors_data = \<lparr>all_selectors = [], ids = [], names = [], classes = [],
     data_test = [], buttons = [], inputs = [], forms = [], cart_elements = [],
     payment_elements = [], shipping_elements = [], discount_elements = [],
     validation_elements = []\<rparr>"

text \<open>Truthiness of an attribute value, as in \<open>if element.get('id'):\<close>.\<close>

fun truthy :: "string option \<Rightarrow> bool" where
  "truthy None = False"
| "truthy (Some s) = (s \<noteq> [])"

fun class_truthy :: "class_value option \<Rightarrow> bool" where
  "class_truthy None = False"
| "class_truthy (Some (ClassList ts)) = (ts \<noteq> [])"
| "class_truthy (Some (ClassStr s)) = (s \<noteq> [])"

text \<open>\<open>element['class'] if isinstance(element['class'], list) else [element['class']]\<close>\<close>

fun class_tokens :: "class_value option \<Rightarrow> string list" where
  "class_tokens None = []"
| "class_tokens (Some (ClassList ts)) = ts"
| "class_tokens (Some (ClassStr s)) = [s]"

text \<open>
  \<open>' '.join(element.get('class', []))\<close>: joining a list joins its tokens; joining a string
  joins its characters.
\<close>

fun class_joined :: "class_value option \<Rightarrow> string" where
  "class_joined None = []"
| "class_joined (Some (ClassList ts)) = join '' '' ts"
| "class_joined (Some (ClassStr s)) = join '' '' (map (\<lambda>c. [c]) s)"

text \<open>\<open>element.get(key, '')\<close>\<close>

fun get_or_empty :: "string option \<Rightarrow> string" where
  "get_or_empty None = []"
| "get_or_empty (Some s) = s"

text \<open>The concatenation \<open>element_id + element_name + element_class\<close> of the lowered values.\<close>

definition attr_text :: "attrs \<Rightarrow> string" where
  "attr_text a = py_lower (get_or_empty (attr_id a)) @ py_lower (get_or_empty (attr_name a))
     @ py_lower (class_joined (attr_class a))"

text \<open>
  A run of statements \<open>if condition: bucket.append(element_info)\<close>, in source order: each
  step is the condition with the update it guards.
\<close>

definition apply_steps :: "'s \<Rightarrow> (bool \<times> ('s \<Rightarrow> 's)) list \<Rightarrow> 's" where
  "apply_steps s steps = foldl (\<lambda>s step. if fst step then snd step s else s) s steps"

definition add_button :: "element_info \<Rightarrow> selectors_data \<Rightarrow> selectors_data" where
  "add_button info sd = sd\<lparr>buttons := buttons sd @ [info]\<rparr>"

definition add_input :: "element_info \<Rightarrow> selectors_data \<Rightarrow> selectors_data" where
  "add_input info sd = sd\<lparr>inputs := inputs sd @ [info]\<rparr>"

definition add_form :: "element_info \<Rightarrow> selectors_data \<Rightarrow> selectors_data" where
  "add_form info sd = sd\<lparr>forms := forms sd @ [info]\<rparr>"

definition add_cart :: "element_info \<Rightarrow> selectors_data \<Rightarrow> selectors_data" where
  "add_cart info sd = sd\<lparr>cart_elements := cart_elements sd @ [info]\<rparr>"

definition add_payment :: "element_info \<Rightarrow> selectors_data \<Rightarrow> selectors_data" where
  "add_payment info sd = sd\<lparr>payment_elements := payment_elements sd @ [info]\<rparr>"

definition add_shipping :: "element_info \<Rightarrow> selectors_data \<Rightarrow> selectors_data" where
  "add_shipping info sd = sd\<lparr>shipping_elements := shipping_elements sd @ [info]\<rparr>"

definition add_discount :: "element_info \<Rightarrow> selectors_data \<Rightarrow> selectors_data" where
  "add_discount info sd = sd\<lparr>discount_elements := discount_elements sd @ [info]\<rparr>"

definition add_validation :: "element_info \<Rightarrow> selectors_data \<Rightarrow> selectors_data" where
  "add_validation info sd = sd\<lparr>validation_elements := validation_elements sd @ [info]\<rparr>"

text \<open>\<open>HTMLSelectorExtractor._categorize_semantic\<close>\<close>

definition categorize_semantic :: "element \<Rightarrow> element_info \<Rightarrow> selectors_data \<Rightarrow> selectors_data"
where
  "categorize_semantic element info sd =
    (case element of (name, a, cs) \<Rightarrow>
     let text_content = py_lower (get_text_strip [] name cs);
         element_class = py_lower (class_joined (attr_class a))
     in apply_steps sd
      [(name = ''button'' \<or> attr_type a = Some ''button'' \<or> attr_type a = Some ''submit'',
          add_button info),
       (name = ''input'' \<or> name = ''textarea'' \<or> name = ''select'', add_input info),
       (name = ''form'', add_form info),
       (any_keyword_in [''cart'', ''add to cart'', ''quantity''] text_content, add_cart info),
       (any_keyword_in [''cart'', ''qty'', ''quantity'', ''total''] (attr_text a), add_cart info),
       (any_keyword_in [''payment'', ''pay'', ''credit'', ''paypal''] text_content,
          add_payment info),
       (any_keyword_in [''payment'', ''pay''] (attr_text a), add_payment info),
       (any_keyword_in [''shipping'', ''standard'', ''express'', ''delivery''] text_content,
          add_shipping info),
       (any_keyword_in [''shipping'', ''delivery''] (attr_text a), add_shipping info),
       (any_keyword_in [''discount'', ''coupon'', ''promo''] text_content, add_discount info),
       (any_keyword_in [''discount'', ''coupon'', ''promo'', ''code''] (attr_text a),
          add_discount info),
       (any_keyword_in [''error'', ''invalid'', ''validation''] element_class,
          add_validation info)])"

text \<open>
  The selectors one element contributes, in the order the loop body appends them: \<open>#id\<close>,
  \<open>[name='...']\<close>, one \<open>.token\<close> per class token, \<open>[data-test='...']\<close>.
\<close>

definition id_selectors :: "attrs \<Rightarrow> string list" where
  "id_selectors a = (if truthy (attr_id a) then [''#'' @ get_or_empty (attr_id a)] else [])"

definition name_selectors :: "attrs \<Rightarrow> string list" where
  "name_selectors a =
     (if truthy (attr_name a)
      then [''[name='' @ [CHR 0x27] @ get_or_empty (attr_name a) @ [CHR 0x27] @ '']''] else [])"

definition class_selectors :: "attrs \<Rightarrow> string list" where
  "class_selectors a =
     (if class_truthy (attr_class a) then map (\<lambda>cls. ''.'' @ cls) (class_tokens (attr_class a)) else [])"

definition data_test_selectors :: "attrs \<Rightarrow> string list" where
  "data_test_selectors a =
     (if truthy (attr_data_test a)
      then [''[data-test='' @ [CHR 0x27] @ get_or_empty (attr_data_test a) @ [CHR 0x27] @ '']'']
      else [])"

text \<open>The \<open>element_info\<close> dict the loop body builds for an element.\<close>

definition element_info_of :: "element \<Rightarrow> element_info" where
  "element_info_of element = (case element of (name, a, cs) \<Rightarrow>
     \<lparr>tag = name,
      selectors = id_selectors a @ name_selectors a @ class_selectors a @ data_test_selectors a,
      id_attr = (if truthy (attr_id a) then attr_id a else None),
      name_attr = (if truthy (attr_name a) then attr_name a else None)\<rparr>)"

text \<open>One iteration of the loop over \<open>all_elements\<close>.\<close>

definition extract_element :: "selectors_data \<Rightarrow> element \<Rightarrow> selectors_data" where
  "extract_element sd element = (case element of (name, a, cs) \<Rightarrow>
     categorize_semantic element (element_info_of element)
       (sd\<lparr>ids := ids sd @ id_selectors a,
           names := names sd @ name_selectors a,
           classes := classes sd @ class_selectors a,
           data_test := data_test sd @ data_test_selectors a,
           all_selectors := all_selectors sd @ id_selectors a @ name_selectors a
              @ class_selectors a @ data_test_selectors a\<rparr>))"

text \<open>
  \<open>HTMLSelectorExtractor.extract_selectors\<close>. The parser is a parameter; it may reject
  the markup. \<open>list(set(...))\<close> keeps one copy of each selector, in an order that Python
  does not fix; \<open>remdups\<close> is one such order, and nothing below depends on it.
\<close>

definition extract_from_soup :: "node list \<Rightarrow> selectors_data" where
  "extract_from_soup soup =
     (let sd = foldl extract_element empty_selectors_data (find_all soup)
      in sd\<lparr>all_selectors := remdups (all_selectors sd)\<rparr>)"

definition extract_selectors :: "(string \<Rightarrow> exn + node list) \<Rightarrow> string \<Rightarrow> exn + selectors_data" where
  "extract_selectors parse html_content =
     (case parse html_content of Inl e \<Rightarrow> Inl e | Inr soup \<Rightarrow> Inr (extract_from_soup soup))"

text \<open>
  What one element adds to the \<open>buttons\<close>, \<open>cart_elements\<close>, \<open>payment_elements\<close> and
  \<open>discount_elements\<close> buckets: its \<open>element_info\<close>, once for each check that fires.
\<close>

definition buttons_of :: "element \<Rightarrow> element_info list" where
  "buttons_of element = (case element of (name, a, cs) \<Rightarrow>
     (if name = ''button'' \<or> attr_type a = Some ''button'' \<or> attr_type a = Some ''submit''
      then [element_info_of element] else []))"

definition cart_of :: "element \<Rightarrow> element_info list" where
  "cart_of element = (case element of (name, a, cs) \<Rightarrow>
     (if any_keyword_in [''cart'', ''add to cart'', ''quantity''] (py_lower (get_text_strip [] name cs))
      then [element_info_of element] else [])
     @ (if any_keyword_in [''cart'', ''qty'', ''quantity'', ''total''] (attr_text a)
        then [element_info_of element] else []))"

definition payment_of :: "element \<Rightarrow> element_info list" where
  "payment_of element = (case element of (name, a, cs) \<Rightarrow>
     (if any_keyword_in [''payment'', ''pay'', ''credit'', ''paypal''] (py_lower (get_text_strip [] name cs))
      then [element_info_of element] else [])
     @ (if any_keyword_in [''payment'', ''pay''] (attr_text a)
        then [element_info_of element] else []))"

definition discount_of :: "element \<Rightarrow> element_info list" where
  "discount_of element = (case element of (name, a, cs) \<Rightarrow>
     (if any_keyword_in [''discount'', ''coupon'', ''promo''] (py_lower (get_text_strip [] name cs))
      then [element_info_of element] else [])
     @ (if any_keyword_in [''discount'', ''coupon'', ''promo'', ''code''] (attr_text a)
        then [element_info_of element] else []))"

text \<open>
  The document \<open><button id="pay-btn" class="cart-btn">Pay</button>\<close> and the tree the
  parser builds for it: one \<open>button\<close> element with the two attributes and one text child.
\<close>

definition pay_html :: string where
  \<open>pay_html = ''<button id="pay-btn" class="cart-btn">Pay</button>''\<close>

definition pay_attrs :: attrs where
  "pay_attrs = \<lparr>attr_id = Some ''pay-btn'', attr_name = None,
     attr_class = Some (ClassList [''cart-btn'']), attr_data_test = None, attr_type = None\<rparr>"

definition pay_button :: element where
  "pay_button = (''button'', pay_attrs, [NavigableString ''Pay''])"

definition pay_soup :: "node list" where
  "pay_soup = [Tag ''button'' pay_attrs [NavigableString ''Pay'']]"

definition pay_info :: element_info where
  "pay_info = \<lparr>tag = ''button'', selectors = [''#pay-btn'', ''.cart-btn''],
     id_attr = Some ''pay-btn'', name_attr = None\<rparr>"



section \<open>Document ingestion (\<open>backend/ingest.py\<close>)\<close>

text \<open>
  \<open>HTMLSelectorExtractor.format_for_storage\<close>: the lines of \<open>output\<close>, joined by newlines.
\<close>

definition format_entry :: "element_info \<Rightarrow> string" where
  "format_entry info = ''  '' @ tag info @ '': '' @ join '', '' (selectors info)"

definition format_for_storage :: "selectors_data \<Rightarrow> string" where
  \<open>format_for_storage sd = join ''\<newline>''
     ([''=== HTML SELECTORS ===\<newline>'',
       ''Total unique selectors: '' @ str_nat (length (all_selectors sd)) @ ''\<newline>'',
       ''\<newline>--- Buttons ---''] @ map format_entry (buttons sd)
      @ [''\<newline>--- Input Fields ---''] @ map format_entry (inputs sd)
      @ [''\<newline>--- Cart Elements ---''] @ map format_entry (cart_elements sd)
      @ [''\<newline>--- Payment Elements ---''] @ map format_entry (payment_elements sd)
      @ [''\<newline>--- Shipping Elements ---''] @ map format_entry (shipping_elements sd)
      @ [''\<newline>--- Discount Elements ---''] @ map format_entry (discount_elements sd))\<close>

text \<open>
  A chunk dictionary; the key \<open>text\<close> is the field \<open>chunk_body\<close>, and \<open>has_selectors\<close> is
  present for \<open>html_dom\<close> chunks only.
\<close>

record chunk =
  chunk_id :: string
  chunk_body :: string
  source_document :: string
  doc_type :: string
  chunk_index :: nat
  has_selectors :: "bool option"

text \<open>
  What the ingestion calls outside this repository, as parameters: \<open>Path(...).suffix\<close> and
  \<open>Path(...).stem\<close>; \<open>bytes.decode('utf-8')\<close>, which raises on bytes that are not UTF-8,
  and \<open>bytes.decode('utf-8', errors='ignore')\<close>, which does not; the PDF text extraction
  of \<open>_parse_pdf\<close>; \<open>markdown.markdown\<close>; the HTML parser; \<open>json.loads\<close>; \<open>str\<close> on a
  float; the text splitter; and the embedding of the chunks with their insertion into the
  vector store (a value of type \<open>'s\<close>). Bytes are values of type \<open>'b\<close>.
\<close>

record ('b, 'f, 's) ingest_env =
  path_suffix :: "string \<Rightarrow> string"
  path_stem :: "string \<Rightarrow> string"
  decode_utf8 :: "'b \<Rightarrow> exn + string"
  decode_utf8_ignore :: "'b \<Rightarrow> string"
  pdf_text :: "'b \<Rightarrow> exn + string"
  markdown_html :: "string \<Rightarrow> exn + string"
  html_parser :: "string \<Rightarrow> exn + node list"
  json_loads :: "string \<Rightarrow> exn + 'f json"
  float_str :: "'f \<Rightarrow> string"
  split_text :: "string \<Rightarrow> exn + string list"
  embed_and_add :: "chunk list \<Rightarrow> 's \<Rightarrow> exn + 's"

text \<open>\<open>_parse_markdown\<close>: \<open>soup.get_text()\<close> joins the text strings as they are.\<close>

definition parse_markdown :: "('b, 'f, 's) ingest_env \<Rightarrow> string \<Rightarrow> exn + string" where
  "parse_markdown env content =
     (case markdown_html env content of Inl e \<Rightarrow> Inl e
      | Inr html \<Rightarrow>
         (case html_parser env html of Inl e \<Rightarrow> Inl e
          | Inr soup \<Rightarrow> Inr (concat (concat (map (all_strings ''[document]'') soup)))))"

text \<open>\<open>_parse_json\<close>: a \<open>JSONDecodeError\<close> gives the raw text back, any other exception escapes.\<close>

definition parse_json :: "('b, 'f, 's) ingest_env \<Rightarrow> string \<Rightarrow> exn + string" where
  "parse_json env content =
     (case json_loads env content of
        Inl (JSONDecodeError m) \<Rightarrow> Inr content
      | Inl (TypeError m) \<Rightarrow> Inl (TypeError m)
      | Inl (OtherError m) \<Rightarrow> Inl (OtherError m)
      | Inr data \<Rightarrow> Inr (flatten_json (float_str env) data []))"

text \<open>\<open>_parse_html\<close>: the document is parsed once for its text and once by the extractor.\<close>

definition parse_html :: "('b, 'f, 's) ingest_env \<Rightarrow> string \<Rightarrow> exn + string" where
  "parse_html env content =
     (case html_parser env content of Inl e \<Rightarrow> Inl e
      | Inr soup \<Rightarrow>
         (case extract_selectors (html_parser env) content of Inl e \<Rightarrow> Inl e
          | Inr selectors_data \<Rightarrow>
              Inr (get_text_strip ''\<newline>'' ''[document]'' soup @ ''\<newline>\<newline>''
                   @ format_for_storage selectors_data)))"

text \<open>\<open>'ui' in filename.lower() or 'ux' in filename.lower()\<close>\<close>

definition ui_ux_name :: "string \<Rightarrow> bool" where
  "ui_ux_name filename = (py_in_str ''ui'' (py_lower filename) \<or> py_in_str ''ux'' (py_lower filename))"

text \<open>\<open>DocumentIngestion.parse_document\<close>\<close>

definition parse_document ::
  "('b, 'f, 's) ingest_env \<Rightarrow> string \<Rightarrow> 'b \<Rightarrow> string \<Rightarrow> exn + (string \<times> string)" where
  "parse_document env file_path file_content filename =
    (let ext = py_lower (path_suffix env filename) in
     if ext = ''.pdf'' then
       (case pdf_text env file_content of Inl e \<Rightarrow> Inl e | Inr t \<Rightarrow> Inr (t, ''spec''))
     else if ext = ''.md'' then
       (case decode_utf8 env file_content of Inl e \<Rightarrow> Inl e
        | Inr content \<Rightarrow>
           (case parse_markdown env content of Inl e \<Rightarrow> Inl e | Inr t \<Rightarrow> Inr (t, ''spec'')))
     else if ext = ''.txt'' then
       (case decode_utf8 env file_content of Inl e \<Rightarrow> Inl e
        | Inr content \<Rightarrow> Inr (content, if ui_ux_name filename then ''ui_ux'' else ''spec''))
     else if ext = ''.json'' then
       (case decode_utf8 env file_content of Inl e \<Rightarrow> Inl e
        | Inr content \<Rightarrow>
           (case parse_json env content of Inl e \<Rightarrow> Inl e | Inr t \<Rightarrow> Inr (t, ''api'')))
     else if ext = ''.html'' \<or> ext = ''.htm'' then
       (case decode_utf8 env file_content of Inl e \<Rightarrow> Inl e
        | Inr content \<Rightarrow>
           (case parse_html env content of Inl e \<Rightarrow> Inl e | Inr t \<Rightarrow> Inr (t, ''html_dom'')))
     else Inr (decode_utf8_ignore env file_content, ''spec''))"

text \<open>
  The chunk dictionary built in the loop of \<open>chunk_text\<close>, from the stem of the source
  name, the value of \<open>self.chunk_counter\<close> after its increment, and the index and text of
  the piece.
\<close>

definition make_chunk :: "string \<Rightarrow> string \<Rightarrow> string \<Rightarrow> nat \<Rightarrow> nat \<Rightarrow> string \<Rightarrow> chunk" where
  "make_chunk stem source ty counter idx piece =
     \<lparr>chunk_id = stem @ ''_'' @ str_nat counter,
      chunk_body = piece, source_document = source, doc_type = ty, chunk_index = idx,
      has_selectors =
        (if ty = ''html_dom''
         then Some (py_in_str ''SELECTOR'' piece \<or> py_in_str ''#'' piece
                    \<or> py_in_str ''class='' piece)
         else None)\<rparr>"

text \<open>
  The loop of \<open>chunk_text\<close> over the enumerated pieces; \<open>counter\<close> is \<open>self.chunk_counter\<close>,
  incremented before each chunk is built.
\<close>

fun chunk_loop ::
  "string \<Rightarrow> string \<Rightarrow> string \<Rightarrow> nat \<Rightarrow> nat \<Rightarrow> string list \<Rightarrow> chunk list \<times> nat" where
  "chunk_loop stem source ty counter idx [] = ([], counter)"
| "chunk_loop stem source ty counter idx (piece # rest) =
     (case chunk_loop stem source ty (counter + 1) (Suc idx) rest of
        (chunk_dicts, counter') \<Rightarrow>
          (make_chunk stem source ty (counter + 1) idx piece # chunk_dicts, counter'))"

text \<open>
  \<open>DocumentIngestion.chunk_text\<close>, from the counter it finds to the chunks and the counter
  it leaves.
\<close>

definition chunk_text ::
  "('b, 'f, 's) ingest_env \<Rightarrow> nat \<Rightarrow> string \<Rightarrow> string \<Rightarrow> string \<Rightarrow> exn + (chunk list \<times> nat)" where
  "chunk_text env counter txt source ty =
     (case split_text env txt of Inl e \<Rightarrow> Inl e
      | Inr pieces \<Rightarrow> Inr (chunk_loop (path_stem env source) source ty counter 0 pieces))"

text \<open>\<open>DocumentIngestion.embed_and_store\<close>\<close>

definition embed_and_store ::
  "('b, 'f, 's) ingest_env \<Rightarrow> chunk list \<Rightarrow> 's \<Rightarrow> exn + (nat \<times> 's)" where
  "embed_and_store env chunks coll =
     (if chunks = [] then Inr (0, coll)
      else (case embed_and_add env chunks coll of Inl e \<Rightarrow> Inl e
            | Inr coll' \<Rightarrow> Inr (length chunks, coll')))"

text \<open>The state of a \<open>DocumentIngestion\<close> object that the pipeline changes.\<close>

record 's ingestion =
  chunk_counter :: nat
  collection :: 's

text \<open>\<open>DocumentIngestion.__init__\<close> sets the counter to zero.\<close>

definition init_ingestion :: "'s \<Rightarrow> 's ingestion" where
  "init_ingestion coll = \<lparr>chunk_counter = 0, collection = coll\<rparr>"

text \<open>The entries of \<open>files_processed\<close>, and the summary \<open>stats\<close>.\<close>

datatype file_entry =
    Processed string string nat
  | Failed string string

fun entry_filename :: "file_entry \<Rightarrow> string" where
  "entry_filename (Processed filename ty n) = filename"
| "entry_filename (Failed filename err) = filename"

record stats =
  total_files :: nat
  total_chunks :: nat
  files_processed :: "file_entry list"
  doc_types :: "string \<rightharpoonup> nat"

definition empty_stats :: stats where
  "empty_stats = \<lparr>total_files = 0, total_chunks = 0, files_processed = [], doc_types = Map.empty\<rparr>"

type_synonym 'b upload = "string \<times> 'b \<times> string"

text \<open>
  The body of the \<open>try\<close> in \<open>ingest_documents\<close>, up to the updates of \<open>stats\<close>: the object
  after it, and either the exception raised or the document type with the number of
  chunks stored. The counter keeps what \<open>chunk_text\<close> did to it even when the storing fails.
\<close>

definition process_file ::
  "('b, 'f, 's) ingest_env \<Rightarrow> 's ingestion \<Rightarrow> 'b upload \<Rightarrow> 's ingestion \<times> (exn + (string \<times> nat))"
where
  "process_file env self file = (case file of (file_path, file_content, filename) \<Rightarrow>
     (case parse_document env file_path file_content filename of
        Inl e \<Rightarrow> (self, Inl e)
      | Inr (text_content, ty) \<Rightarrow>
         (case chunk_text env (chunk_counter self) text_content filename ty of
            Inl e \<Rightarrow> (self, Inl e)
          | Inr (chunks, counter') \<Rightarrow>
             (let self1 = self\<lparr>chunk_counter := counter'\<rparr> in
              case embed_and_store env chunks (collection self1) of
                Inl e \<Rightarrow> (self1, Inl e)
              | Inr (num_stored, coll') \<Rightarrow>
                  (self1\<lparr>collection := coll'\<rparr>, Inr (ty, num_stored))))))"

text \<open>One iteration of the loop of \<open>ingest_documents\<close>: the \<open>try\<close> with its \<open>except\<close>.\<close>

definition ingest_file ::
  "('b, 'f, 's) ingest_env \<Rightarrow> 's ingestion \<times> stats \<Rightarrow> 'b upload \<Rightarrow> 's ingestion \<times> stats" where
  "ingest_file env state file = (case state of (self, st) \<Rightarrow>
     (case process_file env self file of
        (self', Inr (ty, num_stored)) \<Rightarrow>
          (self', st\<lparr>total_files := total_files st + 1,
                     total_chunks := total_chunks st + num_stored,
                     files_processed := files_processed st
                        @ [Processed (snd (snd file)) ty num_stored],
                     doc_types := (doc_types st)
                        (ty \<mapsto> (case doc_types st ty of None \<Rightarrow> 0 | Some c \<Rightarrow> c) + 1)\<rparr>)
      | (self', Inl e) \<Rightarrow>
          (self', st\<lparr>files_processed := files_processed st
                        @ [Failed (snd (snd file)) (exn_str e)]\<rparr>)))"

definition ingest_loop ::
  "('b, 'f, 's) ingest_env \<Rightarrow> 's ingestion \<times> stats \<Rightarrow> 'b upload list \<Rightarrow> 's ingestion \<times> stats" where
  "ingest_loop env state files = foldl (ingest_file env) state files"

text \<open>\<open>DocumentIngestion.ingest_documents\<close>: the object after the batch, and the summary.\<close>

definition ingest_documents ::
  "('b, 'f, 's) ingest_env \<Rightarrow> 's ingestion \<Rightarrow> 'b upload list \<Rightarrow> 's ingestion \<times> stats" where
  "ingest_documents env self uploaded_files = ingest_loop env (self, empty_stats) uploaded_files"

text \<open>
  The chunks that \<open>chunk_text\<close> produces while one file is processed (none when the parsing
  or the splitting raises), and those of a whole batch, file after file, each file starting
  from the object the one before left.
\<close>

definition chunks_of_file :: "('b, 'f, 's) ingest_env \<Rightarrow> 's ingestion \<Rightarrow> 'b upload \<Rightarrow> chunk list"
where
  "chunks_of_file env self file = (case file of (file_path, file_content, filename) \<Rightarrow>
     (case parse_document env file_path file_content filename of
        Inl e \<Rightarrow> []
      | Inr (text_content, ty) \<Rightarrow>
         (case chunk_text env (chunk_counter self) text_content filename ty of
            Inl e \<Rightarrow> []
          | Inr (chunks, counter') \<Rightarrow> chunks)))"

fun batch_chunks ::
  "('b, 'f, 's) ingest_env \<Rightarrow> 's ingestion \<Rightarrow> 'b upload list \<Rightarrow> chunk list" where
  "batch_chunks env self [] = []"
| "batch_chunks env self (file # files) =
     chunks_of_file env self file @ batch_chunks env (fst (process_file env self file)) files"

text \<open>
  The number a chunk id ends with: the value of the decimal digits after its last
  underscore.
\<close>

definition digit_val :: "char \<Rightarrow> nat" where
  "digit_val c = of_char c - 48"

definition counter_of_id :: "string \<Rightarrow> nat" where
  "counter_of_id cid =
     foldl (\<lambda>a c. 10 * a + digit_val c) 0 (rev (takeWhile (\<lambda>c. c \<noteq> CHR ''_'') (rev cid)))"

text \<open>
  An environment for the examples: file names are cut at their last dot, bytes are their
  own text, the PDF reader rejects every file, the splitter returns a non-empty text as
  one piece, and the store is the list of the chunk ids it was given.
\<close>

definition sample_suffix :: "string \<Rightarrow> string" where
  "sample_suffix filename =
     (if CHR ''.'' \<in> set filename
      then CHR ''.'' # rev (takeWhile (\<lambda>c. c \<noteq> CHR ''.'') (rev filename)) else [])"

definition sample_stem :: "string \<Rightarrow> string" where
  "sample_stem filename =
     (if CHR ''.'' \<in> set filename
      then rev (tl (dropWhile (\<lambda>c. c \<noteq> CHR ''.'') (rev filename))) else filename)"

definition sample_env :: "(string, unit, string list) ingest_env" where
  "sample_env = \<lparr>path_suffix = sample_suffix, path_stem = sample_stem,
     decode_utf8 = Inr, decode_utf8_ignore = (\<lambda>b. b),
     pdf_text = (\<lambda>b. Inl (OtherError ''cannot open broken document'')),
     markdown_html = Inr, html_parser = (\<lambda>html. Inr [NavigableString html]),
     json_loads = (\<lambda>content. Inl (JSONDecodeError ''Expecting value'')),
     float_str = (\<lambda>x. ''0.0''),
     split_text = (\<lambda>txt. Inr (if txt = [] then [] else [txt])),
     embed_and_add = (\<lambda>chunks coll. Inr (coll @ map chunk_id chunks))\<rparr>"

section \<open>Properties\<close>

subsection \<open>JSON flattening\<close>

lemma digit_char_simps:
  "digit_char 0 = CHR ''0''" "digit_char 1 = CHR ''1''" "digit_char 2 = CHR ''2''"
  "digit_char 3 = CHR ''3''" "digit_char 4 = CHR ''4''" "digit_char 5 = CHR ''5''"
  "digit_char 6 = CHR ''6''" "digit_char 7 = CHR ''7''" "digit_char 8 = CHR ''8''"
  "digit_char 9 = CHR ''9''" "digit_char (Suc 0) = CHR ''1''"
  unfolding digit_char_def by code_simp+

lemma dict_lines_flat:
  "(\<forall>kv \<in> set kvs. \<not> is_dict_or_list (snd kv)) \<Longrightarrow>
     dict_lines fs kvs [] = map (\<lambda>kv. fst kv @ '': '' @ py_str fs (snd kv)) kvs"
  by (induction kvs) auto

lemma split_on_free: "c \<notin> set a \<Longrightarrow> split_on c a = [a]"
  by (induction a) auto

lemma split_on_append: "c \<notin> set a \<Longrightarrow> split_on c (a @ c # rest) = a # split_on c rest"
  by (induction a) auto

lemma split_on_join:
  "es \<noteq> [] \<Longrightarrow> (\<forall>e \<in> set es. c \<notin> set e) \<Longrightarrow> split_on c (join [c] es) = es"
proof (induction "[c]" es rule: join.induct)
  case 1
  then show ?case by simp
next
  case (2 x)
  then show ?case by (simp add: split_on_free)
next
  case (3 x y ys)
  then show ?case by (simp add: split_on_append)
qed

lemma text_lines_join:
  assumes "\<forall>e \<in> set es. e \<noteq> [] \<and> CHR 0x0A \<notin> set e"
  shows "text_lines (join ''\<newline>'' es) = es"
proof (cases es)
  case Nil
  then show ?thesis by (simp add: text_lines_def)
next
  case (Cons e rest)
  have "join ''\<newline>'' es \<noteq> []"
    using Cons assms by (cases rest) auto
  moreover have "split_on CHR 0x0A (join [CHR 0x0A] es) = es"
    using Cons assms by (intro split_on_join) auto
  ultimately show ?thesis by (simp add: text_lines_def)
qed

text \<open>
  C6, as stated, fails: a string value is written raw, so a newline inside it breaks the
  entry of its key into two lines. \<open>flatten({"a": "x\ny"})\<close> has one key and two lines, and
  the second line is not a \<open>key: value\<close> line.
\<close>

theorem flatten_json_newline_counterexample:
  "text_lines (flatten_json (\<lambda>x::unit. ''0.0'') (JObj [(''a'', JStr ''x\<newline>y'')]) [])
     = [''a: x'', ''y'']
   \<and> length (text_lines (flatten_json (\<lambda>x::unit. ''0.0'') (JObj [(''a'', JStr ''x\<newline>y'')]) []))
     \<noteq> length [(''a'', JStr ''x\<newline>y'' :: unit json)]"
  by (simp add: is_dict_or_list_def text_lines_def)

text \<open>
  C6, amended. On an object none of whose values is an object or an array, and none of
  whose keys and rendered values contains a newline, flattening at the top level (empty
  prefix) produces exactly one line per key, the line \<open>key: value\<close> of that key, in the
  order of the keys: the lines of the returned text are these, and there are as many as
  keys. In particular \<open>flatten({"a": 1})\<close> is the single line \<open>a: 1\<close>.
\<close>

theorem flatten_json_flat_object:
  "((\<forall>kv \<in> set kvs. \<not> is_dict_or_list (snd kv) \<and> CHR 0x0A \<notin> set (fst kv)
        \<and> CHR 0x0A \<notin> set (py_str fs (snd kv))) \<longrightarrow>
      text_lines (flatten_json fs (JObj kvs) [])
        = map (\<lambda>kv. fst kv @ '': '' @ py_str fs (snd kv)) kvs \<and>
      length (text_lines (flatten_json fs (JObj kvs) [])) = length kvs \<and>
      flatten_json fs (JObj kvs) [] =
        join ''\<newline>'' (map (\<lambda>kv. fst kv @ '': '' @ py_str fs (snd kv)) kvs)) \<and>
   flatten_json fs (JObj [(''a'', JInt 1)]) [] = ''a: 1'' \<and>
   text_lines (flatten_json fs (JObj [(''a'', JInt 1)]) []) = [''a: 1'']"
proof -
  have one: "flatten_json fs (JObj [(''a'', JInt 1)]) [] = ''a: 1''"
    by (simp add: is_dict_or_list_def str_int_def digit_char_simps)
  have one_line: "text_lines (flatten_json fs (JObj [(''a'', JInt 1)]) []) = [''a: 1'']"
    unfolding one by (simp add: text_lines_def)
  have flat: "text_lines (flatten_json fs (JObj kvs) [])
        = map (\<lambda>kv. fst kv @ '': '' @ py_str fs (snd kv)) kvs \<and>
      length (text_lines (flatten_json fs (JObj kvs) [])) = length kvs \<and>
      flatten_json fs (JObj kvs) [] =
        join ''\<newline>'' (map (\<lambda>kv. fst kv @ '': '' @ py_str fs (snd kv)) kvs)"
    if h: "\<forall>kv \<in> set kvs. \<not> is_dict_or_list (snd kv) \<and> CHR 0x0A \<notin> set (fst kv)
        \<and> CHR 0x0A \<notin> set (py_str fs (snd kv))"
  proof -
    let ?es = "map (\<lambda>kv. fst kv @ '': '' @ py_str fs (snd kv)) kvs"
    have eq: "flatten_json fs (JObj kvs) [] = join ''\<newline>'' ?es"
      using h dict_lines_flat [of kvs fs] by simp
    have "\<forall>e \<in> set ?es. e \<noteq> [] \<and> CHR 0x0A \<notin> set e"
      using h by auto
    then have "text_lines (join ''\<newline>'' ?es) = ?es"
      by (rule text_lines_join)
    with eq show ?thesis by simp
  qed
  show ?thesis using one one_line flat by blast
qed

theorem flatten_json_flat_object_witness:
  "text_lines (flatten_json (\<lambda>x::unit. ''0.0'')
       (JObj [(''a'', JInt 1), (''b'', JStr ''x''), (''c'', JNull)]) [])
     = [''a: 1'', ''b: x'', ''c: None''] \<and>
   flatten_json (\<lambda>x::unit. ''0.0'') (JObj [(''a'', JInt 1), (''b'', JStr ''x''), (''c'', JNull)]) []
     = ''a: 1\<newline>b: x\<newline>c: None''"
  using flatten_json_flat_object
    [of "[(''a'', JInt 1), (''b'', JStr ''x''), (''c'', JNull)]" "\<lambda>x::unit. ''0.0''"]
  by (simp add: is_dict_or_list_def str_int_def digit_char_simps)

subsection \<open>Selector extractor\<close>

lemma if_proj:
  "buttons (if c then x else y) = (if c then buttons x else buttons y)"
  "cart_elements (if c then x else y) = (if c then cart_elements x else cart_elements y)"
  "payment_elements (if c then x else y) = (if c then payment_elements x else payment_elements y)"
  "discount_elements (if c then x else y) = (if c then discount_elements x else discount_elements y)"
  "all_selectors (if c then x else y) = (if c then all_selectors x else all_selectors y)"
  by simp_all

lemmas add_defs = add_button_def add_input_def add_form_def add_cart_def add_payment_def
  add_shipping_def add_discount_def add_validation_def

lemma categorize_buckets:
  "buttons (categorize_semantic (n, a, cs) info sd) = buttons sd
     @ (if n = ''button'' \<or> attr_type a = Some ''button'' \<or> attr_type a = Some ''submit''
        then [info] else [])"
  "cart_elements (categorize_semantic (n, a, cs) info sd) = cart_elements sd
     @ (if any_keyword_in [''cart'', ''add to cart'', ''quantity''] (py_lower (get_text_strip [] n cs))
        then [info] else [])
     @ (if any_keyword_in [''cart'', ''qty'', ''quantity'', ''total''] (attr_text a)
        then [info] else [])"
  "payment_elements (categorize_semantic (n, a, cs) info sd) = payment_elements sd
     @ (if any_keyword_in [''payment'', ''pay'', ''credit'', ''paypal''] (py_lower (get_text_strip [] n cs))
        then [info] else [])
     @ (if any_keyword_in [''payment'', ''pay''] (attr_text a) then [info] else [])"
  "discount_elements (categorize_semantic (n, a, cs) info sd) = discount_elements sd
     @ (if any_keyword_in [''discount'', ''coupon'', ''promo''] (py_lower (get_text_strip [] n cs))
        then [info] else [])
     @ (if any_keyword_in [''discount'', ''coupon'', ''promo'', ''code''] (attr_text a)
        then [info] else [])"
  "all_selectors (categorize_semantic (n, a, cs) info sd) = all_selectors sd"
  by (simp_all add: categorize_semantic_def apply_steps_def if_proj add_defs Let_def)

lemma extract_element_buckets:
  "buttons (extract_element sd e) = buttons sd @ buttons_of e"
  "cart_elements (extract_element sd e) = cart_elements sd @ cart_of e"
  "payment_elements (extract_element sd e) = payment_elements sd @ payment_of e"
  "discount_elements (extract_element sd e) = discount_elements sd @ discount_of e"
  "all_selectors (extract_element sd e) = all_selectors sd @ selectors (element_info_of e)"
  by (cases e; simp add: extract_element_def categorize_buckets buttons_of_def cart_of_def
        payment_of_def discount_of_def element_info_of_def)+

lemma foldl_extract_buckets:
  "buttons (foldl extract_element sd es) = buttons sd @ concat (map buttons_of es)"
  "cart_elements (foldl extract_element sd es) = cart_elements sd @ concat (map cart_of es)"
  "payment_elements (foldl extract_element sd es)
     = payment_elements sd @ concat (map payment_of es)"
  "discount_elements (foldl extract_element sd es)
     = discount_elements sd @ concat (map discount_of es)"
  "all_selectors (foldl extract_element sd es)
     = all_selectors sd @ concat (map (\<lambda>e. selectors (element_info_of e)) es)"
  by (induction es arbitrary: sd; simp add: extract_element_buckets)+

lemma extract_from_soup_buckets:
  "buttons (extract_from_soup soup) = concat (map buttons_of (find_all soup))"
  "cart_elements (extract_from_soup soup) = concat (map cart_of (find_all soup))"
  "payment_elements (extract_from_soup soup) = concat (map payment_of (find_all soup))"
  "discount_elements (extract_from_soup soup) = concat (map discount_of (find_all soup))"
  "all_selectors (extract_from_soup soup)
     = remdups (concat (map (\<lambda>e. selectors (element_info_of e)) (find_all soup)))"
  by (simp_all add: extract_from_soup_def Let_def foldl_extract_buckets empty_selectors_data_def)

lemma lower_examples:
  "py_lower ''Pay'' = ''pay''" "py_lower ''pay-btn'' = ''pay-btn''"
  "py_lower ''cart-btn'' = ''cart-btn''" "py_lower ''Zip-Code'' = ''zip-code''"
  "py_lower ''ZIP'' = ''zip''" "py_lower [] = []"
  by code_simp+

lemma strip_examples:
  "py_strip ''Pay'' = ''Pay''" "py_strip ''ZIP'' = ''ZIP''"
  by code_simp+

lemma pay_button_facts:
  "find_all pay_soup = [pay_button]"
  "element_info_of pay_button = pay_info"
  "py_lower (get_text_strip [] ''button'' [NavigableString ''Pay'']) = ''pay''"
  "attr_text pay_attrs = ''pay-btncart-btn''"
  by (simp_all add: find_all_def pay_soup_def pay_button_def element_info_of_def pay_info_def
        pay_attrs_def id_selectors_def name_selectors_def class_selectors_def
        data_test_selectors_def get_text_strip_def attr_text_def lower_examples strip_examples
        special_containers_def)

text \<open>
  C7. For the document \<open><button id="pay-btn" class="cart-btn">Pay</button>\<close>, parsed into
  its one \<open>button\<close> element, \<open>extract_selectors\<close> returns the selectors \<open>#pay-btn\<close> and
  \<open>.cart-btn\<close>, and the element is in \<open>buttons\<close>, in \<open>payment_elements\<close> (its lowered text
  \<open>pay\<close> contains the keyword \<open>pay\<close>; the attribute check fires as well, so it is there
  twice) and in \<open>cart_elements\<close> (its class token \<open>cart-btn\<close> contains \<open>cart\<close>): one element in
  three buckets.
\<close>

theorem pay_button_extraction:
  assumes "parse pay_html = Inr pay_soup"
  shows "extract_selectors parse pay_html = Inr (extract_from_soup pay_soup)
    \<and> set (all_selectors (extract_from_soup pay_soup)) = {''#pay-btn'', ''.cart-btn''}
    \<and> buttons (extract_from_soup pay_soup) = [pay_info]
    \<and> payment_elements (extract_from_soup pay_soup) = [pay_info, pay_info]
    \<and> cart_elements (extract_from_soup pay_soup) = [pay_info]
    \<and> any_keyword_in [''payment'', ''pay'', ''credit'', ''paypal'']
         (py_lower (get_text_strip [] ''button'' [NavigableString ''Pay'']))
    \<and> any_keyword_in [''cart'', ''qty'', ''quantity'', ''total''] (py_lower ''cart-btn'')"
proof -
  have "extract_selectors parse pay_html = Inr (extract_from_soup pay_soup)"
    using assms by (simp add: extract_selectors_def)
  moreover have "set (all_selectors (extract_from_soup pay_soup)) = {''#pay-btn'', ''.cart-btn''}"
    by (simp add: extract_from_soup_buckets pay_button_facts pay_info_def)
  moreover have "buttons (extract_from_soup pay_soup) = [pay_info]"
    by (simp add: extract_from_soup_buckets pay_button_facts(1))
       (simp add: buttons_of_def pay_button_def pay_button_facts(2)[unfolded pay_button_def])
  moreover have "payment_elements (extract_from_soup pay_soup) = [pay_info, pay_info]"
    by (simp add: extract_from_soup_buckets pay_button_facts(1))
       (simp add: payment_of_def pay_button_def pay_button_facts(2)[unfolded pay_button_def]
          pay_button_facts(3,4) any_keyword_in_def)
  moreover have "cart_elements (extract_from_soup pay_soup) = [pay_info]"
    by (simp add: extract_from_soup_buckets pay_button_facts(1))
       (simp add: cart_of_def pay_button_def pay_button_facts(2)[unfolded pay_button_def]
          pay_button_facts(3,4) any_keyword_in_def)
  moreover have "any_keyword_in [''payment'', ''pay'', ''credit'', ''paypal'']
         (py_lower (get_text_strip [] ''button'' [NavigableString ''Pay'']))"
    by (simp add: pay_button_facts(3) any_keyword_in_def)
  moreover have "any_keyword_in [''cart'', ''qty'', ''quantity'', ''total''] (py_lower ''cart-btn'')"
    by (simp add: lower_examples any_keyword_in_def)
  ultimately show ?thesis by blast
qed

theorem pay_button_extraction_witness:
  "extract_selectors (\<lambda>html. Inr pay_soup) pay_html = Inr (extract_from_soup pay_soup)
    \<and> buttons (extract_from_soup pay_soup) = [pay_info]
    \<and> payment_elements (extract_from_soup pay_soup) = [pay_info, pay_info]
    \<and> cart_elements (extract_from_soup pay_soup) = [pay_info]"
  using pay_button_extraction [of "\<lambda>html. Inr pay_soup"] by simp



end
